theory Spec2Isabelle
  imports Main "HOL-Library.AList"
begin

section \<open>Values, objects and documents\<close>

text \<open>
  The task service of \<^verbatim>\<open>src/server/app.js\<close>: five HTTP handlers over one MongoDB
  collection, and the helper \<^verbatim>\<open>transformTaskDocument\<close>.

  An \<^verbatim>\<open>ObjectId\<close> is represented by its hexadecimal string form, which is what
  \<^verbatim>\<open>toString()\<close> returns on it.
\<close>

datatype objectid = ObjectId string

fun toString :: "objectid \<Rightarrow> string" where
  "toString (ObjectId h) = h"

text \<open>
  A number is a double: the finite value \<open>m * 2 ^ e\<close> (\<open>Finite m e\<close>, zero when \<open>m\<close> is,
  which stands for both zeros), an infinity (with its sign: \<open>True\<close> is \<^verbatim>\<open>+Infinity\<close>) or
  \<^verbatim>\<open>NaN\<close>.
\<close>

datatype jsnum = Finite int int | Infinity bool | NaN

fun is_zero :: "jsnum \<Rightarrow> bool" where
  "is_zero (Finite m e) = (m = 0)"
| "is_zero (Infinity b) = False"
| "is_zero NaN = False"

text \<open>
  What \<^verbatim>\<open>JSON.parse\<close> yields, and so what an array or an object inside a request body
  or a stored task holds: there is no \<^verbatim>\<open>undefined\<close> in it.
\<close>

datatype json =
    VNull
  | VBool bool
  | VNum jsnum
  | VStr string
  | VArr "json list"
  | VObj "(string \<times> json) list"

text \<open>
  The values a field of a request body or of a stored task can hold: \<^verbatim>\<open>undefined\<close> for
  a field that is read and not there, the JSON values, a \<^verbatim>\<open>Date\<close> (its milliseconds) and
  an \<^verbatim>\<open>ObjectId\<close>.
\<close>

datatype jsval =
    JUndefined
  | JNull
  | JBool bool
  | JNum jsnum
  | JStr string
  | JArr "json list"
  | JObj "(string \<times> json) list"
  | JDate nat
  | JOid objectid

fun of_json :: "json \<Rightarrow> jsval" where
  "of_json VNull = JNull"
| "of_json (VBool b) = JBool b"
| "of_json (VNum n) = JNum n"
| "of_json (VStr s) = JStr s"
| "of_json (VArr xs) = JArr xs"
| "of_json (VObj kvs) = JObj kvs"

text \<open>
  An object is the list of its properties in insertion order. Assigning a property
  (\<^verbatim>\<open>o.k = v\<close>) is \<^const>\<open>AList.update\<close>: an existing key keeps its place, a new
  one goes last. Reading a property that is not there gives \<^verbatim>\<open>undefined\<close>.
\<close>

type_synonym jsobject = "(string \<times> jsval) list"

definition getField :: "jsobject \<Rightarrow> string \<Rightarrow> jsval" where
  "getField obj k = (case map_of obj k of None \<Rightarrow> JUndefined | Some v \<Rightarrow> v)"

text \<open>JavaScript truthiness, as \<^verbatim>\<open>!x\<close> and \<^verbatim>\<open>x || y\<close> use it.\<close>

fun truthy :: "jsval \<Rightarrow> bool" where
  "truthy JUndefined = False"
| "truthy JNull = False"
| "truthy (JBool b) = b"
| "truthy (JNum n) = (\<not> is_zero n \<and> n \<noteq> NaN)"
| "truthy (JStr s) = (s \<noteq> [])"
| "truthy (JArr xs) = True"
| "truthy (JObj kvs) = True"
| "truthy (JDate t) = True"
| "truthy (JOid i) = True"

definition or_js :: "jsval \<Rightarrow> jsval \<Rightarrow> jsval" where
  "or_js a b = (if truthy a then a else b)"

text \<open>
  A reference that may be \<^verbatim>\<open>undefined\<close>, \<^verbatim>\<open>null\<close> or an object: what
  \<^verbatim>\<open>findOne\<close> resolves to and what \<^verbatim>\<open>transformTaskDocument\<close> takes and returns.
\<close>

datatype 'a nullable = Undefined | Null | Obj 'a

fun truthy_ref :: "'a nullable \<Rightarrow> bool" where
  "truthy_ref Undefined = False"
| "truthy_ref Null = False"
| "truthy_ref (Obj x) = True"

text \<open>
  A document as the driver hands it out (\<^verbatim>\<open>WithId<Document>\<close>): its \<^verbatim>\<open>_id\<close>, always
  an \<^verbatim>\<open>ObjectId\<close> in this collection, and its other fields. \<^verbatim>\<open>toObject\<close> is the
  JavaScript object itself, \<^verbatim>\<open>_id\<close> first.
\<close>

record document =
  oid :: objectid
  props :: jsobject

definition toObject :: "document \<Rightarrow> jsobject" where
  "toObject doc = (''_id'', JOid (oid doc)) # props doc"

section \<open>The document transformer\<close>

text \<open>
  \<^verbatim>\<open>
  function transformTaskDocument(doc) {
    if (!doc) return null;
    const task = { ...doc };
    task.id = doc._id.toString();
    return task;
  }
  \<close>
  Both \<^verbatim>\<open>undefined\<close> and \<^verbatim>\<open>null\<close> are falsy, so both come back as \<^verbatim>\<open>null\<close>.
  \<^verbatim>\<open>doc._id.toString()\<close> would throw on an object without \<^verbatim>\<open>_id\<close>; the type
  \<^typ>\<open>document\<close> has none of those, as the collection has none.
\<close>

fun transformTaskDocument :: "document nullable \<Rightarrow> jsobject nullable" where
  "transformTaskDocument (Obj doc) =
     Obj (AList.update ''id'' (JStr (toString (oid doc))) (toObject doc))"
| "transformTaskDocument Null = Null"
| "transformTaskDocument Undefined = Null"

section \<open>The storage gateway\<close>

text \<open>
  The collection is the list of its documents in natural order. \<open>fault\<close> is the state
  of the connection: when it holds a message, every call of the driver rejects with it.
\<close>

record store =
  docs :: "document list"
  fault :: "string option"

text \<open>
  The client is made by \<^verbatim>\<open>new MongoClient(uri)\<close>, with no \<^verbatim>\<open>ignoreUndefined\<close>: the
  driver then writes a field whose value is \<^verbatim>\<open>undefined\<close> as \<^verbatim>\<open>null\<close>, and every other
  value as it is.
\<close>

fun bson :: "jsval \<Rightarrow> jsval" where
  "bson JUndefined = JNull"
| "bson v = v"

definition serialize :: "jsobject \<Rightarrow> jsobject" where
  "serialize obj = map (\<lambda>(k, v). (k, bson v)) obj"

text \<open>
  A filter is an object of field equalities, as in \<^verbatim>\<open>{ _id: objectId }\<close> and
  \<^verbatim>\<open>{ complete: isComplete }\<close>; the empty filter \<^verbatim>\<open>{}\<close> matches every document. A
  field satisfies an equality when it holds the value, or holds an array with the value
  among its elements.
\<close>

definition field_matches :: "jsval \<Rightarrow> jsval \<Rightarrow> bool" where
  "field_matches w v =
     (w = v \<or> (case w of JArr xs \<Rightarrow> v \<in> set (map of_json xs) | _ \<Rightarrow> False))"

definition matches :: "jsobject \<Rightarrow> document \<Rightarrow> bool" where
  "matches query doc =
     list_all (\<lambda>(k, v). case map_of (toObject doc) k of
                           None \<Rightarrow> False
                         | Some w \<Rightarrow> field_matches w v) query"

definition find_docs :: "store \<Rightarrow> jsobject \<Rightarrow> string + document list" where
  "find_docs s query =
     (case fault s of
        Some msg \<Rightarrow> Inl msg
      | None \<Rightarrow> Inr (filter (matches query) (docs s)))"

definition findOne :: "store \<Rightarrow> jsobject \<Rightarrow> string + document nullable" where
  "findOne s query =
     (case fault s of
        Some msg \<Rightarrow> Inl msg
      | None \<Rightarrow>
          Inr (case filter (matches query) (docs s) of
                 [] \<Rightarrow> Null
               | doc # _ \<Rightarrow> Obj doc))"

definition duplicate_key :: string where
  "duplicate_key = ''E11000 duplicate key error''"

text \<open>
  \<^verbatim>\<open>insertOne\<close> stores the object under the identifier the driver generates for it
  (\<open>newId\<close>) and resolves to that identifier; the collection refuses an identifier it
  already holds.
\<close>

definition insertOne :: "store \<Rightarrow> objectid \<Rightarrow> jsobject \<Rightarrow> string + (objectid \<times> store)" where
  "insertOne s newId task =
     (case fault s of
        Some msg \<Rightarrow> Inl msg
      | None \<Rightarrow>
          if newId \<in> set (map oid (docs s)) then Inl duplicate_key
          else Inr (newId, s\<lparr>docs := docs s @ [\<lparr>oid = newId, props = serialize task\<rparr>]\<rparr>))"

text \<open>\<^verbatim>\<open>$set\<close>: each field of the update is assigned, in order.\<close>

definition apply_set :: "jsobject \<Rightarrow> document \<Rightarrow> document" where
  "apply_set upd doc =
     doc\<lparr>props := fold (\<lambda>(k, v) fs. AList.update k v fs) (serialize upd) (props doc)\<rparr>"

fun update_first :: "(document \<Rightarrow> bool) \<Rightarrow> (document \<Rightarrow> document) \<Rightarrow> document list
    \<Rightarrow> document list \<times> document nullable" where
  "update_first p f [] = ([], Null)"
| "update_first p f (d # ds) =
     (if p d then (f d # ds, Obj (f d))
      else (case update_first p f ds of (ds', r) \<Rightarrow> (d # ds', r)))"

text \<open>
  \<^verbatim>\<open>findOneAndUpdate(filter, { $set: upd }, { returnDocument: "after" })\<close>: the first
  matching document is updated and returned as it is afterwards; \<^verbatim>\<open>null\<close> when none
  matches.
\<close>

definition findOneAndUpdate :: "store \<Rightarrow> jsobject \<Rightarrow> jsobject
    \<Rightarrow> string + (document nullable \<times> store)" where
  "findOneAndUpdate s query upd =
     (case fault s of
        Some msg \<Rightarrow> Inl msg
      | None \<Rightarrow>
          (case update_first (matches query) (apply_set upd) (docs s) of
             (ds', r) \<Rightarrow> Inr (r, s\<lparr>docs := ds'\<rparr>)))"

fun remove_first :: "(document \<Rightarrow> bool) \<Rightarrow> document list \<Rightarrow> document list \<times> nat" where
  "remove_first p [] = ([], 0)"
| "remove_first p (d # ds) =
     (if p d then (ds, 1)
      else (case remove_first p ds of (ds', n) \<Rightarrow> (d # ds', n)))"

text \<open>\<^verbatim>\<open>deleteOne(filter)\<close> resolves to its \<^verbatim>\<open>deletedCount\<close>.\<close>

definition deleteOne :: "store \<Rightarrow> jsobject \<Rightarrow> string + (nat \<times> store)" where
  "deleteOne s query =
     (case fault s of
        Some msg \<Rightarrow> Inl msg
      | None \<Rightarrow>
          (case remove_first (matches query) (docs s) of
             (ds', n) \<Rightarrow> Inr (n, s\<lparr>docs := ds'\<rparr>)))"

section \<open>The handlers\<close>

text \<open>
  A response is its status and its JSON body: \<open>ErrorBody m\<close> is \<^verbatim>\<open>{ error: m }\<close>,
  \<open>MessageBody m\<close> is \<^verbatim>\<open>{ message: m }\<close>. \<^verbatim>\<open>res.json\<close> without \<^verbatim>\<open>res.status\<close> answers
  200.
\<close>

datatype body =
    ErrorBody string
  | MessageBody string
  | Json "jsobject nullable"
  | JsonArray "jsobject nullable list"

type_synonym response = "nat \<times> body"

definition not_found :: "string \<Rightarrow> response" where
  "not_found id' = (404, ErrorBody (''Task with ID '' @ id' @ '' not found''))"

text \<open>
  The transformed shape of a task is recognised by the string \<^verbatim>\<open>id\<close> it carries.
\<close>

definition carries_id :: "jsobject nullable \<Rightarrow> bool" where
  "carries_id r =
     (case r of
        Obj task \<Rightarrow> (case map_of task ''id'' of Some (JStr h) \<Rightarrow> True | _ \<Rightarrow> False)
      | _ \<Rightarrow> False)"

text \<open>
  \<^verbatim>\<open>app.get("/api/tasks")\<close>. \<open>complete\<close> is \<^verbatim>\<open>req.query.complete\<close>: the string of
  the parameter, \<open>None\<close> when the parameter is absent (\<^verbatim>\<open>undefined\<close>).
\<close>

definition get_api_tasks :: "store \<Rightarrow> string option \<Rightarrow> response" where
  "get_api_tasks s complete =
     (let query = (case complete of
                     None \<Rightarrow> []
                   | Some c \<Rightarrow> [(''complete'', JBool (c = ''true''))])
      in (case find_docs s query of
            Inl msg \<Rightarrow> (500, ErrorBody msg)
          | Inr tasks \<Rightarrow>
              (200, JsonArray (map (\<lambda>task. transformTaskDocument (Obj task)) tasks))))"

text \<open>
  \<^verbatim>\<open>app.get("/api/tasks/:id")\<close>. \<open>newObjectId\<close> is the driver's \<^verbatim>\<open>new ObjectId(id)\<close>
  on a string: the identifier, or the message of the error it throws.
\<close>

definition get_api_tasks_id :: "(string \<Rightarrow> string + objectid) \<Rightarrow> store \<Rightarrow> string \<Rightarrow> response" where
  "get_api_tasks_id newObjectId s id' =
     (case newObjectId id' of
        Inl msg \<Rightarrow> (500, ErrorBody msg)
      | Inr objectId \<Rightarrow>
          (case findOne s [(''_id'', JOid objectId)] of
             Inl msg \<Rightarrow> (500, ErrorBody msg)
           | Inr task \<Rightarrow>
               if \<not> truthy_ref task then not_found id'
               else (200, Json (transformTaskDocument task))))"

text \<open>
  \<^verbatim>\<open>app.post("/api/tasks")\<close>. \<open>reqBody\<close> is the parsed JSON body; \<open>now1\<close> and \<open>now2\<close>
  are the two readings of the clock (\<^verbatim>\<open>new Date()\<close>) in the order the object literal
  takes them.
\<close>

definition post_api_tasks :: "store \<Rightarrow> objectid \<Rightarrow> nat \<Rightarrow> nat \<Rightarrow> jsobject \<Rightarrow> response \<times> store" where
  "post_api_tasks s newId now1 now2 reqBody =
     (let title = getField reqBody ''title'';
          description = getField reqBody ''description'';
          complete = getField reqBody ''complete''
      in (if \<not> truthy title then ((400, ErrorBody ''Title is required''), s)
          else
            (let task = [(''title'', title),
                         (''description'', or_js description (JStr '''')),
                         (''complete'', or_js complete (JBool False)),
                         (''createdAt'', JDate now1),
                         (''updatedAt'', JDate now2)]
             in (case insertOne s newId task of
                   Inl msg \<Rightarrow> ((500, ErrorBody msg), s)
                 | Inr (insertedId, s') \<Rightarrow>
                     (case findOne s' [(''_id'', JOid insertedId)] of
                        Inl msg \<Rightarrow> ((500, ErrorBody msg), s')
                      | Inr insertedTask \<Rightarrow>
                          ((201, Json (map_nullable toObject insertedTask)), s'))))))"

text \<open>\<^verbatim>\<open>app.put("/api/tasks/:id")\<close>. \<open>now\<close> is the reading of the clock.\<close>

definition put_api_tasks_id :: "(string \<Rightarrow> string + objectid) \<Rightarrow> store \<Rightarrow> nat \<Rightarrow> string
    \<Rightarrow> jsobject \<Rightarrow> response \<times> store" where
  "put_api_tasks_id newObjectId s now id' reqBody =
     (let title = getField reqBody ''title'';
          description = getField reqBody ''description'';
          complete = getField reqBody ''complete''
      in (case newObjectId id' of
            Inl msg \<Rightarrow> ((500, ErrorBody msg), s)
          | Inr objectId \<Rightarrow>
              (let updateDoc = [(''title'', title),
                                (''description'', description),
                                (''complete'', complete),
                                (''updatedAt'', JDate now)]
               in (case findOneAndUpdate s [(''_id'', JOid objectId)] updateDoc of
                     Inl msg \<Rightarrow> ((500, ErrorBody msg), s)
                   | Inr (updatedTask, s') \<Rightarrow>
                       (if \<not> truthy_ref updatedTask then (not_found id', s')
                        else ((200, Json (transformTaskDocument updatedTask)), s'))))))"

text \<open>\<^verbatim>\<open>app.delete("/api/tasks/:id")\<close>.\<close>

definition delete_api_tasks_id :: "(string \<Rightarrow> string + objectid) \<Rightarrow> store \<Rightarrow> string
    \<Rightarrow> response \<times> store" where
  "delete_api_tasks_id newObjectId s id' =
     (case newObjectId id' of
        Inl msg \<Rightarrow> ((500, ErrorBody msg), s)
      | Inr objectId \<Rightarrow>
          (case deleteOne s [(''_id'', JOid objectId)] of
             Inl msg \<Rightarrow> ((500, ErrorBody msg), s)
           | Inr (deletedCount, s') \<Rightarrow>
               if deletedCount = 0 then (not_found id', s')
               else ((200, MessageBody ''Task deleted successfully''), s')))"

text \<open>
  One behaviour of \<^verbatim>\<open>new ObjectId(id)\<close> on strings, used to run the handlers on
  concrete requests: a string of 24 hexadecimal digits is the identifier whose string
  form is that string in lower case, anything else throws.
\<close>

definition lower_hex :: "char \<Rightarrow> char" where
  "lower_hex c =
     (if c = CHR ''A'' then CHR ''a'' else if c = CHR ''B'' then CHR ''b''
      else if c = CHR ''C'' then CHR ''c'' else if c = CHR ''D'' then CHR ''d''
      else if c = CHR ''E'' then CHR ''e'' else if c = CHR ''F'' then CHR ''f''
      else c)"

definition hexdigit :: "char \<Rightarrow> bool" where
  "hexdigit c = (c \<in> set ''0123456789abcdefABCDEF'')"

definition hex24 :: "string \<Rightarrow> string + objectid" where
  "hex24 str =
     (if length str = 24 \<and> list_all hexdigit str then Inr (ObjectId (map lower_hex str))
      else Inl ''input must be a 24 character hex string, 12 byte Uint8Array, or an integer'')"

section \<open>A collection to run the handlers on\<close>

definition id1 :: string where
  "id1 = ''650000000000000000000001''"

definition id2 :: string where
  "id2 = ''650000000000000000000002''"

definition id3 :: string where
  "id3 = ''650000000000000000000003''"

definition task1 :: document where
  "task1 = \<lparr>oid = ObjectId id1,
            props = [(''title'', JStr ''Buy milk''), (''description'', JStr ''''),
                     (''complete'', JBool False), (''createdAt'', JDate 1000),
                     (''updatedAt'', JDate 1000)]\<rparr>"

definition task2 :: document where
  "task2 = \<lparr>oid = ObjectId id2,
            props = [(''title'', JStr ''Pay rent''), (''description'', JStr ''monthly''),
                     (''complete'', JBool True), (''createdAt'', JDate 2000),
                     (''updatedAt'', JDate 3000)]\<rparr>"

definition task3 :: document where
  "task3 = \<lparr>oid = ObjectId id3,
            props = [(''title'', JStr ''Call''), (''description'', JStr ''''),
                     (''complete'', JArr [VBool True]), (''createdAt'', JDate 4000),
                     (''updatedAt'', JDate 4001)]\<rparr>"

definition store2 :: store where
  "store2 = \<lparr>docs = [task1, task2], fault = None\<rparr>"

definition store3 :: store where
  "store3 = \<lparr>docs = [task1, task2, task3], fault = None\<rparr>"

lemmas ex_defs = id1_def id2_def id3_def task1_def task2_def task3_def store2_def store3_def

section \<open>Filters and the first matching document\<close>

lemma bson_if: "bson v = (if v = JUndefined then JNull else v)"
  by (cases v) auto

lemma find_Some_oid: "find (\<lambda>d. oid d = x) ds = Some d \<Longrightarrow> oid d = x"
  by (auto simp: find_Some_iff)

lemma bson_truthy: "truthy v \<Longrightarrow> bson v = v"
  by (cases v) auto

lemma bson_or_js: "b \<noteq> JUndefined \<Longrightarrow> bson (or_js a b) = or_js a b"
  by (cases a; cases b) (auto simp: or_js_def)

lemma of_json_bool: "(of_json x = JBool b) = (x = VBool b)" "(JBool b = of_json x) = (x = VBool b)"
  by (cases x; auto)+

lemma matches_id [simp]: "matches [(''_id'', JOid x)] = (\<lambda>d. oid d = x)"
  by (rule ext) (auto simp: matches_def toObject_def field_matches_def)

lemma matches_complete [simp]:
  "matches [(''complete'', JBool b)] =
     (\<lambda>d. getField (toObject d) ''complete'' = JBool b
        \<or> (\<exists>xs. getField (toObject d) ''complete'' = JArr xs \<and> VBool b \<in> set xs))"
  by (rule ext)
     (auto simp: matches_def getField_def toObject_def field_matches_def of_json_bool
        image_iff split: option.splits jsval.splits)

lemma matches_Nil [simp]: "matches [] = (\<lambda>d. True)"
  by (rule ext) (simp add: matches_def)

lemma first_match_find:
  "(case filter P ds of [] \<Rightarrow> Null | d # _ \<Rightarrow> Obj d) =
   (case find P ds of None \<Rightarrow> Null | Some d \<Rightarrow> Obj d)"
  by (induction ds) auto

lemma find_None_oid: "(find (\<lambda>d. oid d = x) ds = None) = (x \<notin> set (map oid ds))"
  by (auto simp: find_None_iff)

lemma find_append_fresh:
  "x \<notin> set (map oid ds) \<Longrightarrow> oid d = x \<Longrightarrow> find (\<lambda>d. oid d = x) (ds @ [d]) = Some d"
  by (induction ds) auto

lemma findOne_id:
  "fault s = None \<Longrightarrow>
   findOne s [(''_id'', JOid x)] =
     Inr (case find (\<lambda>d. oid d = x) (docs s) of None \<Rightarrow> Null | Some d \<Rightarrow> Obj d)"
  by (simp add: findOne_def first_match_find)

section \<open>Deleting the first match\<close>

lemma remove_first_none:
  "x \<notin> set (map oid ds) \<Longrightarrow> remove_first (\<lambda>d. oid d = x) ds = (ds, 0)"
  by (induction ds) auto

lemma remove_first_some:
  "x \<in> set (map oid ds) \<Longrightarrow>
   snd (remove_first (\<lambda>d. oid d = x) ds) = 1 \<and>
   Suc (length (fst (remove_first (\<lambda>d. oid d = x) ds))) = length ds"
  by (induction ds) (auto split: prod.splits)

lemma remove_first_distinct:
  "distinct (map oid ds) \<Longrightarrow> x \<notin> set (map oid (fst (remove_first (\<lambda>d. oid d = x) ds)))"
proof (induction ds)
  case Nil
  then show ?case by simp
next
  case (Cons d ds)
  show ?case
  proof (cases "oid d = x")
    case True
    with Cons.prems show ?thesis by auto
  next
    case False
    with Cons show ?thesis by (auto split: prod.splits)
  qed
qed

lemma deleteOne_id:
  "fault s = None \<Longrightarrow>
   deleteOne s [(''_id'', JOid x)] =
     Inr (snd (remove_first (\<lambda>d. oid d = x) (docs s)),
          s\<lparr>docs := fst (remove_first (\<lambda>d. oid d = x) (docs s))\<rparr>)"
  by (simp add: deleteOne_def split: prod.splits)

section \<open>Updating the first match\<close>

lemma oid_apply_set [simp]: "oid (apply_set upd d) = oid d"
  by (simp add: apply_set_def)

lemma map_of_apply_set4:
  "map_of (props (apply_set [(k1, v1), (k2, v2), (k3, v3), (k4, v4)] d)) =
   (map_of (props d))(k1 \<mapsto> bson v1, k2 \<mapsto> bson v2, k3 \<mapsto> bson v3, k4 \<mapsto> bson v4)"
  by (simp add: apply_set_def serialize_def update_conv')

lemma update_first_result:
  "snd (update_first P f ds) = (case find P ds of None \<Rightarrow> Null | Some d \<Rightarrow> Obj (f d))"
  by (induction ds) (auto split: prod.splits)

lemma update_first_frame:
  "(\<And>d. g (f d) = g d) \<Longrightarrow> map g (fst (update_first P f ds)) = map g ds"
  by (induction ds) (auto split: prod.splits)

lemma update_first_find:
  "(\<And>d. oid (f d) = oid d) \<Longrightarrow>
   find (\<lambda>d. oid d = x) (fst (update_first (\<lambda>d. oid d = x) f ds)) =
   map_option f (find (\<lambda>d. oid d = x) ds)"
  by (induction ds) (auto split: prod.splits)

lemma findOneAndUpdate_id:
  "fault s = None \<Longrightarrow>
   findOneAndUpdate s [(''_id'', JOid x)] upd =
     Inr (snd (update_first (\<lambda>d. oid d = x) (apply_set upd) (docs s)),
          s\<lparr>docs := fst (update_first (\<lambda>d. oid d = x) (apply_set upd) (docs s))\<rparr>)"
  by (simp add: findOneAndUpdate_def split: prod.splits)

section \<open>What update and create do when they succeed\<close>

lemma put_found:
  assumes "newObjectId id' = Inr x" and "fault s = None"
    and "find (\<lambda>d. oid d = x) (docs s) = Some d"
  shows "put_api_tasks_id newObjectId s now id' reqBody =
     ((200, Json (transformTaskDocument (Obj (apply_set
          [(''title'', getField reqBody ''title''),
           (''description'', getField reqBody ''description''),
           (''complete'', getField reqBody ''complete''),
           (''updatedAt'', JDate now)] d)))),
      s\<lparr>docs := fst (update_first (\<lambda>d. oid d = x) (apply_set
          [(''title'', getField reqBody ''title''),
           (''description'', getField reqBody ''description''),
           (''complete'', getField reqBody ''complete''),
           (''updatedAt'', JDate now)]) (docs s))\<rparr>)"
  using assms
  by (simp add: put_api_tasks_id_def findOneAndUpdate_id update_first_result Let_def)

lemma put_frame:
  "map oid (docs (snd (put_api_tasks_id newObjectId s now id' reqBody))) = map oid (docs s)
   \<and> map (\<lambda>d. map_of (props d) ''createdAt'')
        (docs (snd (put_api_tasks_id newObjectId s now id' reqBody))) =
      map (\<lambda>d. map_of (props d) ''createdAt'') (docs s)"
proof (cases "newObjectId id'")
  case (Inl msg)
  then show ?thesis by (simp add: put_api_tasks_id_def)
next
  case (Inr x)
  show ?thesis
  proof (cases "fault s")
    case (Some msg)
    with Inr show ?thesis by (simp add: put_api_tasks_id_def findOneAndUpdate_def)
  next
    case None
    with Inr show ?thesis
      by (simp add: put_api_tasks_id_def findOneAndUpdate_id Let_def
            update_first_frame[where g = oid]
            update_first_frame[where g = "\<lambda>d. map_of (props d) ''createdAt''"]
            map_of_apply_set4)
  qed
qed

lemma post_created:
  assumes "truthy (getField reqBody ''title'')" and "fault s = None"
    and "newId \<notin> set (map oid (docs s))"
  shows "post_api_tasks s newId now1 now2 reqBody =
     ((201, Json (Obj (toObject
        \<lparr>oid = newId,
         props = [(''title'', getField reqBody ''title''),
                  (''description'', or_js (getField reqBody ''description'') (JStr '''')),
                  (''complete'', or_js (getField reqBody ''complete'') (JBool False)),
                  (''createdAt'', JDate now1),
                  (''updatedAt'', JDate now2)]\<rparr>))),
      s\<lparr>docs := docs s @
        [\<lparr>oid = newId,
          props = [(''title'', getField reqBody ''title''),
                   (''description'', or_js (getField reqBody ''description'') (JStr '''')),
                   (''complete'', or_js (getField reqBody ''complete'') (JBool False)),
                   (''createdAt'', JDate now1),
                   (''updatedAt'', JDate now2)]\<rparr>]\<rparr>)"
  using assms
  by (simp add: post_api_tasks_def insertOne_def findOne_id find_append_fresh Let_def
        serialize_def bson_truthy bson_or_js del: set_map)

lemma post_201:
  "fst (fst (post_api_tasks s newId now1 now2 reqBody)) = 201 \<Longrightarrow>
   truthy (getField reqBody ''title'') \<and> fault s = None \<and> newId \<notin> set (map oid (docs s))"
  by (auto simp: post_api_tasks_def insertOne_def findOne_def Let_def
        split: if_splits option.splits sum.splits)

section \<open>Which responses carry a transformed task\<close>

lemma transform_carries_id: "carries_id (Obj (AList.update ''id'' (JStr h) obj))"
  by (simp add: carries_id_def update_conv')

lemma list_carries_id:
  "fst (get_api_tasks s c) = 200 \<Longrightarrow>
   \<exists>rs. snd (get_api_tasks s c) = JsonArray rs \<and> list_all carries_id rs"
  by (auto simp: get_api_tasks_def find_docs_def transform_carries_id list_all_iff Let_def
        split: sum.splits option.splits)

lemma get_carries_id:
  "fst (get_api_tasks_id newObjectId s i) = 200 \<Longrightarrow>
   \<exists>r. snd (get_api_tasks_id newObjectId s i) = Json r \<and> carries_id r"
  by (auto simp: get_api_tasks_id_def findOne_def not_found_def transform_carries_id
        split: sum.splits option.splits list.splits if_splits)

lemma put_carries_id:
  "fst (fst (put_api_tasks_id newObjectId s now i b)) = 200 \<Longrightarrow>
   \<exists>r. snd (fst (put_api_tasks_id newObjectId s now i b)) = Json r \<and> carries_id r"
  by (cases "snd (update_first (matches [(''_id'', JOid (projr (newObjectId i)))])
        (apply_set [(''title'', getField b ''title''),
           (''description'', getField b ''description''),
           (''complete'', getField b ''complete''),
           (''updatedAt'', JDate now)]) (docs s))")
     (auto simp: put_api_tasks_id_def findOneAndUpdate_def not_found_def transform_carries_id
        Let_def split: sum.splits option.splits prod.splits if_splits)

lemma delete_no_task:
  "snd (fst (delete_api_tasks_id newObjectId s i)) \<noteq> Json r"
  by (auto simp: delete_api_tasks_id_def not_found_def split: sum.splits prod.splits)

section \<open>The example collection\<close>

lemma hex24_id1: "hex24 id1 = Inr (ObjectId id1)"
  by (simp add: hex24_def hexdigit_def lower_hex_def id1_def)

lemma hex24_id3: "hex24 id3 = Inr (ObjectId id3)"
  by (simp add: hex24_def hexdigit_def lower_hex_def id3_def)

lemma hex24_bad:
  "hex24 ''not-a-valid-id'' =
     Inl ''input must be a 24 character hex string, 12 byte Uint8Array, or an integer''"
  by (simp add: hex24_def)

lemma fault_store2: "fault store2 = None"
  by (simp add: store2_def)

lemma find_id1: "find (\<lambda>d. oid d = ObjectId id1) (docs store2) = Some task1"
  by (simp add: ex_defs)

lemma id3_fresh: "ObjectId id3 \<notin> set (map oid (docs store2))"
  by (simp add: ex_defs)

lemma distinct_store2: "distinct (map oid (docs store2))"
  by (simp add: ex_defs)

lemma body_milk:
  "truthy (getField [(''title'', JStr ''Buy milk'')] ''title'')"
  "map_of [(''title'', JStr ''Buy milk'')] ''description'' = None"
  "map_of [(''title'', JStr ''Buy milk'')] ''complete'' = None"
  "getField [(''title'', JStr ''Buy milk'')] ''title'' = JStr ''Buy milk''"
  by (simp_all add: getField_def)

lemma status_201:
  "fst (fst (post_api_tasks store2 (ObjectId id3) 4000 4001 [(''title'', JStr ''Buy milk'')])) = 201"
  by (simp add: post_created[OF body_milk(1) fault_store2 id3_fresh])

lemma body_falsy:
  "truthy (getField [(''title'', JStr ''a''), (''description'', JNum (Finite 0 0)),
                     (''complete'', JStr ''yes'')] ''title'')"
  "getField [(''title'', JStr ''a''), (''description'', JNum (Finite 0 0)),
             (''complete'', JStr ''yes'')] ''description'' = JNum (Finite 0 0)"
  "getField [(''title'', JStr ''a''), (''description'', JNum (Finite 0 0)),
             (''complete'', JStr ''yes'')] ''complete'' = JStr ''yes''"
  by (simp_all add: getField_def)

lemma status_others:
  "fst (get_api_tasks store2 None) = 200"
  "fst (get_api_tasks_id hex24 store2 id1) = 200"
  "fst (fst (put_api_tasks_id hex24 store2 5000 id1 [(''title'', JStr ''Buy oat milk'')])) = 200"
  by (simp_all add: get_api_tasks_def find_docs_def fault_store2
        get_api_tasks_id_def hex24_id1 findOne_id find_id1
        put_found[where newObjectId = hex24 and id' = id1, OF hex24_id1 fault_store2 find_id1])

section \<open>The claims\<close>

text \<open>
  C1, as the code has it. An update of an existing task sets its stored \<^verbatim>\<open>title\<close>,
  \<^verbatim>\<open>description\<close> and \<^verbatim>\<open>complete\<close> to what the request body supplies. A field the body
  omits is read as \<^verbatim>\<open>undefined\<close>, which the driver writes as \<^verbatim>\<open>null\<close>: the old value is
  replaced by \<^verbatim>\<open>null\<close>, not kept. The task is the first document of the collection with
  the parsed identifier; the identifier parses and the storage answers.
\<close>

theorem C1_update_full_replace:
  assumes "newObjectId id' = Inr x" and "fault s = None"
    and "find (\<lambda>d. oid d = x) (docs s) = Some d"
  shows "\<exists>d' s'. put_api_tasks_id newObjectId s now id' reqBody =
             ((200, Json (transformTaskDocument (Obj d'))), s')
          \<and> find (\<lambda>d. oid d = x) (docs s') = Some d'
          \<and> (\<forall>k \<in> {''title'', ''description'', ''complete''}.
                (getField reqBody k \<noteq> JUndefined \<longrightarrow>
                   map_of (props d') k = Some (getField reqBody k))
              \<and> (getField reqBody k = JUndefined \<longrightarrow> map_of (props d') k = Some JNull)
              \<and> (map_of reqBody k = None \<longrightarrow> map_of (props d') k = Some JNull))"
  using assms
  by (simp add: put_found update_first_find map_of_apply_set4 getField_def bson_if)

text \<open>
  The first task of the example collection has \<^verbatim>\<open>complete: false\<close> and an empty
  description; a body with a title only leaves both \<^verbatim>\<open>null\<close>.
\<close>

theorem C1_update_full_replace_witness:
  "hex24 id1 = Inr (ObjectId id1) \<and> fault store2 = None
   \<and> find (\<lambda>d. oid d = ObjectId id1) (docs store2) = Some task1
   \<and> (\<exists>d' s'. put_api_tasks_id hex24 store2 5000 id1 [(''title'', JStr ''Buy oat milk'')] =
             ((200, Json (transformTaskDocument (Obj d'))), s')
          \<and> find (\<lambda>d. oid d = ObjectId id1) (docs s') = Some d'
          \<and> map_of (props d') ''title'' = Some (JStr ''Buy oat milk'')
          \<and> map_of (props d') ''description'' = Some JNull
          \<and> map_of (props d') ''complete'' = Some JNull)"
proof -
  have b: "getField [(''title'', JStr ''Buy oat milk'')] ''title'' = JStr ''Buy oat milk''"
    "map_of [(''title'', JStr ''Buy oat milk'')] ''description'' = None"
    "map_of [(''title'', JStr ''Buy oat milk'')] ''complete'' = None"
    by (simp_all add: getField_def)
  from C1_update_full_replace[where newObjectId = hex24 and id' = id1 and now = 5000
      and reqBody = "[(''title'', JStr ''Buy oat milk'')]", OF hex24_id1 fault_store2 find_id1]
  obtain d' s' where
    "put_api_tasks_id hex24 store2 5000 id1 [(''title'', JStr ''Buy oat milk'')] =
             ((200, Json (transformTaskDocument (Obj d'))), s')"
    "find (\<lambda>d. oid d = ObjectId id1) (docs s') = Some d'"
    "map_of (props d') ''title'' = Some (JStr ''Buy oat milk'')"
    "map_of (props d') ''description'' = Some JNull"
    "map_of (props d') ''complete'' = Some JNull"
    using b by auto
  with hex24_id1 fault_store2 find_id1 show ?thesis by blast
qed

text \<open>
  C1 as written says that an omitted field is stored as undefined or absent, the value
  the body supplies. After the update above the stored task holds \<^verbatim>\<open>complete: null\<close>
  and \<^verbatim>\<open>description: null\<close>, while the body's \<^verbatim>\<open>complete\<close> is \<^verbatim>\<open>undefined\<close>.
\<close>

theorem C1_omitted_field_stored_null:
  "docs (snd (put_api_tasks_id hex24 store2 5000 id1 [(''title'', JStr ''Buy oat milk'')])) =
     [\<lparr>oid = ObjectId id1,
       props = [(''title'', JStr ''Buy oat milk''), (''description'', JNull),
                (''complete'', JNull), (''createdAt'', JDate 1000),
                (''updatedAt'', JDate 5000)]\<rparr>,
      task2]
   \<and> getField [(''title'', JStr ''Buy oat milk'')] ''complete'' = JUndefined
   \<and> map_of [(''title'', JStr ''Buy oat milk''), (''description'', JNull),
              (''complete'', JNull), (''createdAt'', JDate 1000),
              (''updatedAt'', JDate 5000)] ''complete'' = Some JNull
   \<and> JNull \<noteq> JUndefined"
  by (simp add: put_found[where newObjectId = hex24 and id' = id1,
        OF hex24_id1 fault_store2 find_id1] getField_def)
     (simp add: ex_defs apply_set_def serialize_def)



text \<open>
  C3. Get by identifier: when the identifier does not parse, the answer is 500 with the
  message of the parse error; when it parses and no document has it, 404 with
  \<^verbatim>\<open>Task with ID <id> not found\<close>; when a document has it, 200 with the transformed
  task: the document's properties and \<^verbatim>\<open>id\<close>, the string form of its \<^verbatim>\<open>_id\<close>. In the last
  two cases the storage answers.
\<close>

theorem C3_get_by_id_statuses:
  "(newObjectId id' = Inl msg \<longrightarrow>
      get_api_tasks_id newObjectId s id' = (500, ErrorBody msg))
   \<and> (newObjectId id' = Inr x \<and> fault s = None \<and> x \<notin> set (map oid (docs s)) \<longrightarrow>
      get_api_tasks_id newObjectId s id' =
        (404, ErrorBody (''Task with ID '' @ id' @ '' not found'')))
   \<and> (newObjectId id' = Inr x \<and> fault s = None \<and> find (\<lambda>d. oid d = x) (docs s) = Some d \<longrightarrow>
      get_api_tasks_id newObjectId s id' = (200, Json (transformTaskDocument (Obj d)))
      \<and> (\<exists>task. get_api_tasks_id newObjectId s id' = (200, Json (Obj task))
            \<and> map_of task = (map_of (toObject d))(''id'' \<mapsto> JStr (toString (oid d)))
            \<and> map_of task ''id'' = Some (JStr (toString x))
            \<and> map_of task ''_id'' = Some (JOid x)))"
  by (auto simp: get_api_tasks_id_def findOne_id not_found_def find_None_oid[symmetric]
        update_conv' toObject_def dest: find_Some_oid
           simp del: set_map)

theorem C3_get_by_id_statuses_witness:
  "get_api_tasks_id hex24 store2 ''not-a-valid-id'' =
     (500, ErrorBody ''input must be a 24 character hex string, 12 byte Uint8Array, or an integer'')
   \<and> get_api_tasks_id hex24 store2 id3 =
       (404, ErrorBody ''Task with ID 650000000000000000000003 not found'')
   \<and> get_api_tasks_id hex24 store2 id1 =
       (200, Json (Obj [(''_id'', JOid (ObjectId ''650000000000000000000001'')),
                        (''title'', JStr ''Buy milk''), (''description'', JStr ''''),
                        (''complete'', JBool False), (''createdAt'', JDate 1000),
                        (''updatedAt'', JDate 1000),
                        (''id'', JStr ''650000000000000000000001'')]))"
proof -
  have t: "transformTaskDocument (Obj task1) =
      Obj [(''_id'', JOid (ObjectId ''650000000000000000000001'')),
           (''title'', JStr ''Buy milk''), (''description'', JStr ''''),
           (''complete'', JBool False), (''createdAt'', JDate 1000),
           (''updatedAt'', JDate 1000),
           (''id'', JStr ''650000000000000000000001'')]"
    by (simp add: ex_defs toObject_def)
  have n: "''Task with ID '' @ id3 @ '' not found'' = ''Task with ID 650000000000000000000003 not found''"
    by (simp add: id3_def)
  show ?thesis
    using C3_get_by_id_statuses[of hex24 "''not-a-valid-id''" _ store2] hex24_bad
      C3_get_by_id_statuses[of hex24 id3 _ store2 "ObjectId id3"] hex24_id3 id3_fresh
      C3_get_by_id_statuses[of hex24 id1 _ store2 "ObjectId id1" task1] hex24_id1 find_id1
      fault_store2
    unfolding t n by simp
qed

text \<open>
  C4, as the code has it. List: with \<^verbatim>\<open>complete\<close> present and equal to \<^verbatim>\<open>"true"\<close> the
  answer is exactly the transformed tasks whose \<^verbatim>\<open>complete\<close> is \<^verbatim>\<open>true\<close> or is an array
  that contains \<^verbatim>\<open>true\<close>, in the collection's order; with any other value present,
  exactly those whose \<^verbatim>\<open>complete\<close> is \<^verbatim>\<open>false\<close> or is an array that contains \<^verbatim>\<open>false\<close>;
  with the parameter absent, every task. When no task matches the array is empty. Each
  transformed task is the document's properties and \<^verbatim>\<open>id\<close>, the string form of its
  \<^verbatim>\<open>_id\<close>. The storage answers.
\<close>

theorem C4_list_filter:
  "fault s = None \<Longrightarrow>
   get_api_tasks s (Some ''true'') =
     (200, JsonArray (map (\<lambda>d. transformTaskDocument (Obj d))
            (filter (\<lambda>d. getField (toObject d) ''complete'' = JBool True
                       \<or> (\<exists>xs. getField (toObject d) ''complete'' = JArr xs
                               \<and> VBool True \<in> set xs)) (docs s))))
   \<and> (c \<noteq> ''true'' \<longrightarrow>
        get_api_tasks s (Some c) =
          (200, JsonArray (map (\<lambda>d. transformTaskDocument (Obj d))
             (filter (\<lambda>d. getField (toObject d) ''complete'' = JBool False
                        \<or> (\<exists>xs. getField (toObject d) ''complete'' = JArr xs
                                \<and> VBool False \<in> set xs)) (docs s)))))
   \<and> get_api_tasks s None =
        (200, JsonArray (map (\<lambda>d. transformTaskDocument (Obj d)) (docs s)))
   \<and> ((\<forall>d \<in> set (docs s). getField (toObject d) ''complete'' \<noteq> JBool (c = ''true'')
          \<and> (\<forall>xs. getField (toObject d) ''complete'' = JArr xs \<longrightarrow>
                 VBool (c = ''true'') \<notin> set xs)) \<longrightarrow>
        get_api_tasks s (Some c) = (200, JsonArray []))
   \<and> (\<forall>d. \<exists>task. transformTaskDocument (Obj d) = Obj task
          \<and> map_of task = (map_of (toObject d))(''id'' \<mapsto> JStr (toString (oid d)))
          \<and> map_of task ''_id'' = Some (JOid (oid d)))"
  by (auto simp: get_api_tasks_def find_docs_def filter_empty_conv update_conv' toObject_def)

theorem C4_list_filter_witness:
  "fault store3 = None
   \<and> get_api_tasks store3 (Some ''true'') =
       (200, JsonArray
          [Obj [(''_id'', JOid (ObjectId ''650000000000000000000002'')),
                (''title'', JStr ''Pay rent''), (''description'', JStr ''monthly''),
                (''complete'', JBool True), (''createdAt'', JDate 2000),
                (''updatedAt'', JDate 3000),
                (''id'', JStr ''650000000000000000000002'')],
           Obj [(''_id'', JOid (ObjectId ''650000000000000000000003'')),
                (''title'', JStr ''Call''), (''description'', JStr ''''),
                (''complete'', JArr [VBool True]), (''createdAt'', JDate 4000),
                (''updatedAt'', JDate 4001),
                (''id'', JStr ''650000000000000000000003'')]])
   \<and> get_api_tasks store3 (Some ''false'') =
       (200, JsonArray
          [Obj [(''_id'', JOid (ObjectId ''650000000000000000000001'')),
                (''title'', JStr ''Buy milk''), (''description'', JStr ''''),
                (''complete'', JBool False), (''createdAt'', JDate 1000),
                (''updatedAt'', JDate 1000),
                (''id'', JStr ''650000000000000000000001'')]])
   \<and> get_api_tasks store3 (Some ''1'') = get_api_tasks store3 (Some ''false'')
   \<and> get_api_tasks store3 None =
       (200, JsonArray [transformTaskDocument (Obj task1), transformTaskDocument (Obj task2),
                        transformTaskDocument (Obj task3)])
   \<and> get_api_tasks (store3\<lparr>docs := [task1]\<rparr>) (Some ''true'') = (200, JsonArray [])"
proof -
  have f: "fault store3 = None" "fault (store3\<lparr>docs := [task1]\<rparr>) = None"
    by (simp_all add: store3_def)
  have c: "getField (toObject task1) ''complete'' = JBool False"
    "getField (toObject task2) ''complete'' = JBool True"
    "getField (toObject task3) ''complete'' = JArr [VBool True]"
    by (simp_all add: ex_defs getField_def toObject_def)
  have t: "transformTaskDocument (Obj task1) =
      Obj [(''_id'', JOid (ObjectId ''650000000000000000000001'')),
           (''title'', JStr ''Buy milk''), (''description'', JStr ''''),
           (''complete'', JBool False), (''createdAt'', JDate 1000),
           (''updatedAt'', JDate 1000),
           (''id'', JStr ''650000000000000000000001'')]"
    "transformTaskDocument (Obj task2) =
      Obj [(''_id'', JOid (ObjectId ''650000000000000000000002'')),
           (''title'', JStr ''Pay rent''), (''description'', JStr ''monthly''),
           (''complete'', JBool True), (''createdAt'', JDate 2000),
           (''updatedAt'', JDate 3000),
           (''id'', JStr ''650000000000000000000002'')]"
    "transformTaskDocument (Obj task3) =
      Obj [(''_id'', JOid (ObjectId ''650000000000000000000003'')),
           (''title'', JStr ''Call''), (''description'', JStr ''''),
           (''complete'', JArr [VBool True]), (''createdAt'', JDate 4000),
           (''updatedAt'', JDate 4001),
           (''id'', JStr ''650000000000000000000003'')]"
    by (simp_all add: ex_defs toObject_def)
  have d: "docs store3 = [task1, task2, task3]" "docs (store3\<lparr>docs := [task1]\<rparr>) = [task1]"
    by (simp_all add: store3_def)
  note a = C4_list_filter[OF f(1), of "''false''"]
  note b = C4_list_filter[OF f(1), of "''1''"]
  note e = C4_list_filter[OF f(2), of "''true''"]
  have 1: "get_api_tasks store3 (Some ''true'') =
       (200, JsonArray [transformTaskDocument (Obj task2), transformTaskDocument (Obj task3)])"
    using a unfolding d by (simp add: c del: transformTaskDocument.simps)
  have 2: "get_api_tasks store3 (Some ''false'') =
       (200, JsonArray [transformTaskDocument (Obj task1)])"
    using a unfolding d by (simp add: c del: transformTaskDocument.simps)
  have 3: "get_api_tasks store3 (Some ''1'') =
       (200, JsonArray [transformTaskDocument (Obj task1)])"
    using b unfolding d by (simp add: c del: transformTaskDocument.simps)
  have 4: "get_api_tasks store3 None =
       (200, JsonArray [transformTaskDocument (Obj task1), transformTaskDocument (Obj task2),
                        transformTaskDocument (Obj task3)])"
    using a unfolding d by (simp del: transformTaskDocument.simps)
  have 5: "get_api_tasks (store3\<lparr>docs := [task1]\<rparr>) (Some ''true'') = (200, JsonArray [])"
    using e unfolding d by (simp add: c)
  show ?thesis
    using f(1) 1 2 3 4 5 unfolding t by simp
qed

text \<open>
  C4 as written says that \<^verbatim>\<open>complete=true\<close> answers exactly the tasks whose \<^verbatim>\<open>complete\<close>
  is \<^verbatim>\<open>true\<close>. A create with \<^verbatim>\<open>complete: [true]\<close> stores the array as it is, since it is
  truthy, and the list with \<^verbatim>\<open>complete=true\<close> then answers that task as well.
\<close>

theorem C4_array_valued_complete_listed:
  "post_api_tasks store2 (ObjectId id3) 4000 4001
       [(''title'', JStr ''Call''), (''complete'', JArr [VBool True])] =
     ((201, Json (Obj (toObject task3))), store3)
   \<and> get_api_tasks store3 (Some ''true'') =
       (200, JsonArray [transformTaskDocument (Obj task2), transformTaskDocument (Obj task3)])
   \<and> getField (toObject task3) ''complete'' = JArr [VBool True]
   \<and> getField (toObject task3) ''complete'' \<noteq> JBool True"
proof -
  have b: "truthy (getField [(''title'', JStr ''Call''), (''complete'', JArr [VBool True])] ''title'')"
    by (simp add: getField_def)
  have p: "post_api_tasks store2 (ObjectId id3) 4000 4001
       [(''title'', JStr ''Call''), (''complete'', JArr [VBool True])] =
     ((201, Json (Obj (toObject task3))), store3)"
    by (simp add: post_created[OF b fault_store2 id3_fresh])
       (simp add: getField_def or_js_def task3_def store2_def store3_def)
  have l: "get_api_tasks store3 (Some ''true'') =
       (200, JsonArray [transformTaskDocument (Obj task2), transformTaskDocument (Obj task3)])"
    by (simp add: get_api_tasks_def find_docs_def del: transformTaskDocument.simps)
       (simp add: ex_defs getField_def toObject_def)
  have c: "getField (toObject task3) ''complete'' = JArr [VBool True]"
    by (simp add: getField_def toObject_def task3_def)
  show ?thesis using p l c by simp
qed

text \<open>
  C5, as the code has it. On a stored document the transformer returns a copy with
  \<^verbatim>\<open>id\<close> set to the string form of \<^verbatim>\<open>_id\<close> and every other property, \<^verbatim>\<open>_id\<close> included,
  as it was. On \<^verbatim>\<open>null\<close> it returns \<^verbatim>\<open>null\<close>, and on \<^verbatim>\<open>undefined\<close> it returns \<^verbatim>\<open>null\<close>
  as well. It is a total function: it has a result on each of these inputs.
\<close>

theorem C5_transform_adds_id:
  "(\<exists>task. transformTaskDocument (Obj doc) = Obj task
       \<and> map_of task = (map_of (toObject doc))(''id'' \<mapsto> JStr (toString (oid doc)))
       \<and> getField task ''_id'' = JOid (oid doc)
       \<and> getField task ''id'' = JStr (toString (oid doc)))
   \<and> transformTaskDocument Null = Null
   \<and> transformTaskDocument Undefined = Null"
  by (auto simp: update_conv' toObject_def getField_def fun_eq_iff)

theorem C5_transform_adds_id_witness:
  "(\<exists>task. transformTaskDocument (Obj task1) = Obj task
       \<and> map_of task = (map_of (toObject task1))(''id'' \<mapsto> JStr (toString (oid task1)))
       \<and> getField task ''_id'' = JOid (ObjectId id1)
       \<and> getField task ''id'' = JStr id1)
   \<and> transformTaskDocument Null = Null
   \<and> transformTaskDocument Undefined = Null"
  using C5_transform_adds_id[of task1] by (simp add: task1_def)

text \<open>
  C5 as written says that an absent input comes back unchanged. The code answers
  \<^verbatim>\<open>null\<close> to \<^verbatim>\<open>undefined\<close>.
\<close>

theorem C5_undefined_not_unchanged:
  "transformTaskDocument Undefined \<noteq> Undefined"
  by simp

text \<open>
  C6. A create whose title is missing or falsy answers 400 with
  \<^verbatim>\<open>{ error: "Title is required" }\<close> and leaves the collection as it was.
\<close>

theorem C6_create_requires_title:
  "\<not> truthy (getField reqBody ''title'') \<Longrightarrow>
   post_api_tasks s newId now1 now2 reqBody = ((400, ErrorBody ''Title is required''), s)"
  by (simp add: post_api_tasks_def)

theorem C6_create_requires_title_witness:
  "\<not> truthy (getField [(''title'', JStr ''''), (''complete'', JBool True)] ''title'')
   \<and> post_api_tasks store2 (ObjectId id3) 4000 4001
        [(''title'', JStr ''''), (''complete'', JBool True)]
       = ((400, ErrorBody ''Title is required''), store2)"
proof -
  have h: "\<not> truthy (getField [(''title'', JStr ''''), (''complete'', JBool True)] ''title'')"
    by (simp add: getField_def)
  show ?thesis using h C6_create_requires_title[OF h] by simp
qed

text \<open>
  C7. Delete, when the identifier parses and the storage answers: a deleted count of one
  answers 200 with \<^verbatim>\<open>{ message: "Task deleted successfully" }\<close>, a count of zero answers
  404 with the not-found body. The count is one when a document has the identifier and
  zero when none has. Deleting the same identifier again, in a collection whose
  identifiers are distinct, answers 404.
\<close>

theorem C7_delete_statuses:
  assumes "newObjectId id' = Inr x" and "fault s = None"
  shows "(\<forall>s'. deleteOne s [(''_id'', JOid x)] = Inr (1, s') \<longrightarrow>
            delete_api_tasks_id newObjectId s id' =
              ((200, MessageBody ''Task deleted successfully''), s'))
       \<and> (\<forall>s'. deleteOne s [(''_id'', JOid x)] = Inr (0, s') \<longrightarrow>
            delete_api_tasks_id newObjectId s id' =
              ((404, ErrorBody (''Task with ID '' @ id' @ '' not found'')), s'))
       \<and> (x \<in> set (map oid (docs s)) \<longrightarrow>
            (\<exists>s'. deleteOne s [(''_id'', JOid x)] = Inr (1, s')
                 \<and> Suc (length (docs s')) = length (docs s)))
       \<and> (x \<notin> set (map oid (docs s)) \<longrightarrow> deleteOne s [(''_id'', JOid x)] = Inr (0, s))
       \<and> (distinct (map oid (docs s)) \<longrightarrow>
            fst (delete_api_tasks_id newObjectId
                   (snd (delete_api_tasks_id newObjectId s id')) id') =
              (404, ErrorBody (''Task with ID '' @ id' @ '' not found'')))"
proof (intro conjI allI impI)
  fix s' assume "deleteOne s [(''_id'', JOid x)] = Inr (1, s')"
  with assms show "delete_api_tasks_id newObjectId s id' =
      ((200, MessageBody ''Task deleted successfully''), s')"
    by (simp add: delete_api_tasks_id_def)
next
  fix s' assume "deleteOne s [(''_id'', JOid x)] = Inr (0, s')"
  with assms show "delete_api_tasks_id newObjectId s id' =
      ((404, ErrorBody (''Task with ID '' @ id' @ '' not found'')), s')"
    by (simp add: delete_api_tasks_id_def not_found_def)
next
  assume "x \<in> set (map oid (docs s))"
  with assms remove_first_some[of x "docs s"]
  show "\<exists>s'. deleteOne s [(''_id'', JOid x)] = Inr (1, s')
          \<and> Suc (length (docs s')) = length (docs s)"
    by (simp add: deleteOne_id)
next
  assume "x \<notin> set (map oid (docs s))"
  with assms remove_first_none[of x "docs s"]
  show "deleteOne s [(''_id'', JOid x)] = Inr (0, s)"
    by (simp add: deleteOne_id)
next
  assume dist: "distinct (map oid (docs s))"
  let ?s' = "s\<lparr>docs := fst (remove_first (\<lambda>d. oid d = x) (docs s))\<rparr>"
  have s': "snd (delete_api_tasks_id newObjectId s id') = ?s'"
    using assms by (simp add: delete_api_tasks_id_def deleteOne_id)
  have gone: "x \<notin> set (map oid (docs ?s'))"
    using remove_first_distinct[OF dist, of x] by simp
  have "fault ?s' = None" using assms by simp
  then have "deleteOne ?s' [(''_id'', JOid x)] = Inr (0, ?s')"
    using remove_first_none[OF gone] by (simp add: deleteOne_id)
  with assms s' show "fst (delete_api_tasks_id newObjectId
                   (snd (delete_api_tasks_id newObjectId s id')) id') =
              (404, ErrorBody (''Task with ID '' @ id' @ '' not found''))"
    by (simp add: delete_api_tasks_id_def not_found_def)
qed

theorem C7_delete_statuses_witness:
  "hex24 id1 = Inr (ObjectId id1) \<and> hex24 id3 = Inr (ObjectId id3) \<and> fault store2 = None
   \<and> deleteOne store2 [(''_id'', JOid (ObjectId id1))] = Inr (1, store2\<lparr>docs := [task2]\<rparr>)
   \<and> delete_api_tasks_id hex24 store2 id1 =
        ((200, MessageBody ''Task deleted successfully''), store2\<lparr>docs := [task2]\<rparr>)
   \<and> deleteOne store2 [(''_id'', JOid (ObjectId id3))] = Inr (0, store2)
   \<and> delete_api_tasks_id hex24 store2 id3 =
        ((404, ErrorBody (''Task with ID '' @ id3 @ '' not found'')), store2)
   \<and> distinct (map oid (docs store2))
   \<and> fst (delete_api_tasks_id hex24 (snd (delete_api_tasks_id hex24 store2 id1)) id1) =
        (404, ErrorBody (''Task with ID '' @ id1 @ '' not found''))"
proof -
  have d1: "deleteOne store2 [(''_id'', JOid (ObjectId id1))] = Inr (1, store2\<lparr>docs := [task2]\<rparr>)"
    by (simp add: deleteOne_id fault_store2) (simp add: ex_defs)
  have d3: "deleteOne store2 [(''_id'', JOid (ObjectId id3))] = Inr (0, store2)"
    by (simp add: deleteOne_id fault_store2) (simp add: ex_defs)
  note a = C7_delete_statuses[where newObjectId = hex24 and id' = id1,
      OF hex24_id1 fault_store2]
  note b = C7_delete_statuses[where newObjectId = hex24 and id' = id3,
      OF hex24_id3 fault_store2]
  show ?thesis
    using a b d1 d3 hex24_id1 hex24_id3 fault_store2 distinct_store2 by blast
qed

text \<open>
  C8. Whenever a create answers 201, its body is the stored document as \<^verbatim>\<open>findOne\<close>
  reads it back by the new identifier, untransformed: it has \<^verbatim>\<open>_id\<close> and no \<^verbatim>\<open>id\<close>, and
  it is not what \<^verbatim>\<open>transformTaskDocument\<close> makes of that document. The other four
  operations never answer in that shape: every element of a list answer and the body of
  a successful get or update carry the string \<^verbatim>\<open>id\<close>, and a delete answers no task.
\<close>

theorem C8_create_returns_raw_document:
  assumes "fst (fst (post_api_tasks s newId now1 now2 reqBody)) = 201"
  shows "(\<exists>d. findOne (snd (post_api_tasks s newId now1 now2 reqBody)) [(''_id'', JOid newId)]
               = Inr (Obj d)
          \<and> snd (fst (post_api_tasks s newId now1 now2 reqBody)) = Json (Obj (toObject d))
          \<and> map_of (toObject d) ''_id'' = Some (JOid newId)
          \<and> map_of (toObject d) ''id'' = None
          \<and> \<not> carries_id (Obj (toObject d))
          \<and> transformTaskDocument (Obj d) \<noteq> Obj (toObject d))
       \<and> (fst (get_api_tasks s1 c) = 200 \<longrightarrow>
            (\<exists>rs. snd (get_api_tasks s1 c) = JsonArray rs \<and> list_all carries_id rs))
       \<and> (fst (get_api_tasks_id newObjectId s2 i2) = 200 \<longrightarrow>
            (\<exists>r. snd (get_api_tasks_id newObjectId s2 i2) = Json r \<and> carries_id r))
       \<and> (fst (fst (put_api_tasks_id newObjectId s3 now i3 b3)) = 200 \<longrightarrow>
            (\<exists>r. snd (fst (put_api_tasks_id newObjectId s3 now i3 b3)) = Json r \<and> carries_id r))
       \<and> (\<forall>r. snd (fst (delete_api_tasks_id newObjectId s4 i4)) \<noteq> Json r)"
proof -
  from post_201[OF assms]
  have h: "truthy (getField reqBody ''title'')" "fault s = None"
    "newId \<notin> set (map oid (docs s))"
    by simp_all
  have raw: "\<exists>d. findOne (snd (post_api_tasks s newId now1 now2 reqBody)) [(''_id'', JOid newId)]
               = Inr (Obj d)
          \<and> snd (fst (post_api_tasks s newId now1 now2 reqBody)) = Json (Obj (toObject d))
          \<and> map_of (toObject d) ''_id'' = Some (JOid newId)
          \<and> map_of (toObject d) ''id'' = None
          \<and> \<not> carries_id (Obj (toObject d))
          \<and> transformTaskDocument (Obj d) \<noteq> Obj (toObject d)"
    by (simp add: post_created[OF h] findOne_id h find_append_fresh toObject_def
          carries_id_def del: set_map)
  show ?thesis
    using raw list_carries_id[of s1 c] get_carries_id[of newObjectId s2 i2]
      put_carries_id[of newObjectId s3 now i3 b3] delete_no_task[of newObjectId s4 i4]
    by blast
qed

theorem C8_create_returns_raw_document_witness:
  "fst (fst (post_api_tasks store2 (ObjectId id3) 4000 4001 [(''title'', JStr ''Buy milk'')])) = 201
   \<and> (\<exists>d. findOne (snd (post_api_tasks store2 (ObjectId id3) 4000 4001
                           [(''title'', JStr ''Buy milk'')]))
               [(''_id'', JOid (ObjectId id3))] = Inr (Obj d)
          \<and> snd (fst (post_api_tasks store2 (ObjectId id3) 4000 4001
                         [(''title'', JStr ''Buy milk'')]))
               = Json (Obj (toObject d))
          \<and> map_of (toObject d) ''_id'' = Some (JOid (ObjectId id3))
          \<and> map_of (toObject d) ''id'' = None
          \<and> \<not> carries_id (Obj (toObject d))
          \<and> transformTaskDocument (Obj d) \<noteq> Obj (toObject d))
   \<and> fst (get_api_tasks store2 None) = 200
   \<and> (\<exists>rs. snd (get_api_tasks store2 None) = JsonArray rs \<and> list_all carries_id rs)
   \<and> fst (get_api_tasks_id hex24 store2 id1) = 200
   \<and> (\<exists>r. snd (get_api_tasks_id hex24 store2 id1) = Json r \<and> carries_id r)
   \<and> fst (fst (put_api_tasks_id hex24 store2 5000 id1 [(''title'', JStr ''Buy oat milk'')])) = 200
   \<and> (\<exists>r. snd (fst (put_api_tasks_id hex24 store2 5000 id1 [(''title'', JStr ''Buy oat milk'')]))
             = Json r \<and> carries_id r)
   \<and> (\<forall>r. snd (fst (delete_api_tasks_id hex24 store2 id1)) \<noteq> Json r)"
  using C8_create_returns_raw_document[OF status_201, of store2 None hex24 store2 id1
      store2 5000 id1 "[(''title'', JStr ''Buy oat milk'')]" store2 id1]
    status_201 status_others
  by blast

text \<open>
  C9. No update, whatever its outcome, changes the identifier or the \<^verbatim>\<open>createdAt\<close> of
  any document of the collection. An update of an existing task leaves that task its
  identifier and its \<^verbatim>\<open>createdAt\<close> and sets its \<^verbatim>\<open>updatedAt\<close> to the reading of the clock.
\<close>

theorem C9_update_frame:
  "map oid (docs (snd (put_api_tasks_id newObjectId s now id' reqBody))) = map oid (docs s)
   \<and> map (\<lambda>d. map_of (props d) ''createdAt'')
        (docs (snd (put_api_tasks_id newObjectId s now id' reqBody))) =
      map (\<lambda>d. map_of (props d) ''createdAt'') (docs s)
   \<and> (newObjectId id' = Inr x \<and> fault s = None \<and> find (\<lambda>d. oid d = x) (docs s) = Some d \<longrightarrow>
        (\<exists>d'. find (\<lambda>d. oid d = x) (docs (snd (put_api_tasks_id newObjectId s now id' reqBody)))
                 = Some d'
             \<and> oid d' = oid d
             \<and> map_of (props d') ''createdAt'' = map_of (props d) ''createdAt''
             \<and> map_of (props d') ''updatedAt'' = Some (JDate now)))"
  using put_frame[of newObjectId s now id' reqBody]
  by (auto simp: put_found update_first_find map_of_apply_set4)

theorem C9_update_frame_witness:
  "hex24 id1 = Inr (ObjectId id1) \<and> fault store2 = None
   \<and> find (\<lambda>d. oid d = ObjectId id1) (docs store2) = Some task1
   \<and> map oid (docs (snd (put_api_tasks_id hex24 store2 5000 id1 [(''title'', JStr ''Buy oat milk'')])))
        = [ObjectId id1, ObjectId id2]
   \<and> map (\<lambda>d. map_of (props d) ''createdAt'')
        (docs (snd (put_api_tasks_id hex24 store2 5000 id1 [(''title'', JStr ''Buy oat milk'')])))
        = [Some (JDate 1000), Some (JDate 2000)]
   \<and> (\<exists>d'. find (\<lambda>d. oid d = ObjectId id1)
              (docs (snd (put_api_tasks_id hex24 store2 5000 id1 [(''title'', JStr ''Buy oat milk'')])))
                 = Some d'
          \<and> oid d' = ObjectId id1
          \<and> map_of (props d') ''createdAt'' = Some (JDate 1000)
          \<and> map_of (props d') ''updatedAt'' = Some (JDate 5000))"
proof -
  have m: "map oid (docs store2) = [ObjectId id1, ObjectId id2]"
    "map (\<lambda>d. map_of (props d) ''createdAt'') (docs store2) = [Some (JDate 1000), Some (JDate 2000)]"
    "oid task1 = ObjectId id1" "map_of (props task1) ''createdAt'' = Some (JDate 1000)"
    by (simp_all add: store2_def task1_def task2_def)
  show ?thesis
    using C9_update_frame[where newObjectId = hex24 and id' = id1 and s = store2 and now = 5000
        and reqBody = "[(''title'', JStr ''Buy oat milk'')]" and x = "ObjectId id1" and d = task1]
      hex24_id1 fault_store2 find_id1
    unfolding m by blast
qed

text \<open>
  C10. Create applies its defaults with \<^verbatim>\<open>||\<close>, so to every falsy value and not only to
  a missing field: a falsy description (\<^verbatim>\<open>undefined\<close>, \<^verbatim>\<open>null\<close>, \<^verbatim>\<open>false\<close>, \<^verbatim>\<open>0\<close>, \<^verbatim>\<open>NaN\<close>,
  \<^verbatim>\<open>""\<close>) is stored as \<^verbatim>\<open>""\<close>, a falsy complete is stored as \<^verbatim>\<open>false\<close>, and a truthy value
  of either, a non-empty string, an array or an object for \<^verbatim>\<open>complete\<close> included, is
  stored as it is. The title is truthy, the storage answers and the generated identifier
  is new.
\<close>

theorem C10_create_defaults_on_falsy:
  assumes "truthy (getField reqBody ''title'')"
    and "fault s = None" and "newId \<notin> set (map oid (docs s))"
  shows "(\<exists>d s'. post_api_tasks s newId now1 now2 reqBody = ((201, Json (Obj (toObject d))), s')
          \<and> docs s' = docs s @ [d]
          \<and> (\<not> truthy (getField reqBody ''description'') \<longrightarrow>
                map_of (props d) ''description'' = Some (JStr ''''))
          \<and> (truthy (getField reqBody ''description'') \<longrightarrow>
                map_of (props d) ''description'' = Some (getField reqBody ''description''))
          \<and> (\<not> truthy (getField reqBody ''complete'') \<longrightarrow>
                map_of (props d) ''complete'' = Some (JBool False))
          \<and> (truthy (getField reqBody ''complete'') \<longrightarrow>
                map_of (props d) ''complete'' = Some (getField reqBody ''complete'')))
       \<and> (\<forall>v. (\<not> truthy v) =
              (v \<in> {JUndefined, JNull, JBool False, JNum NaN, JStr ''''}
               \<or> (\<exists>e. v = JNum (Finite 0 e))))"
proof -
  have falsy: "\<forall>v. (\<not> truthy v) =
              (v \<in> {JUndefined, JNull, JBool False, JNum NaN, JStr ''''}
               \<or> (\<exists>e. v = JNum (Finite 0 e)))"
  proof
    fix v
    show "(\<not> truthy v) =
              (v \<in> {JUndefined, JNull, JBool False, JNum NaN, JStr ''''}
               \<or> (\<exists>e. v = JNum (Finite 0 e)))"
    proof (cases v)
      case (JNum n)
      then show ?thesis by (cases n) auto
    qed auto
  qed
  have created: "\<exists>d s'. post_api_tasks s newId now1 now2 reqBody = ((201, Json (Obj (toObject d))), s')
          \<and> docs s' = docs s @ [d]
          \<and> (\<not> truthy (getField reqBody ''description'') \<longrightarrow>
                map_of (props d) ''description'' = Some (JStr ''''))
          \<and> (truthy (getField reqBody ''description'') \<longrightarrow>
                map_of (props d) ''description'' = Some (getField reqBody ''description''))
          \<and> (\<not> truthy (getField reqBody ''complete'') \<longrightarrow>
                map_of (props d) ''complete'' = Some (JBool False))
          \<and> (truthy (getField reqBody ''complete'') \<longrightarrow>
                map_of (props d) ''complete'' = Some (getField reqBody ''complete''))"
    by (simp add: post_created[OF assms] or_js_def)
  from created falsy show ?thesis by (rule conjI)
qed

theorem C10_create_defaults_on_falsy_witness:
  "truthy (getField [(''title'', JStr ''a''), (''description'', JNum (Finite 0 0)),
                     (''complete'', JStr ''yes'')] ''title'')
   \<and> truthy (getField [(''title'', JStr ''a''), (''description'', JBool False),
                       (''complete'', JNull)] ''title'')
   \<and> fault store2 = None \<and> ObjectId id3 \<notin> set (map oid (docs store2))
   \<and> (\<exists>d s'. post_api_tasks store2 (ObjectId id3) 4000 4001
               [(''title'', JStr ''a''), (''description'', JNum (Finite 0 0)),
                (''complete'', JStr ''yes'')] =
              ((201, Json (Obj (toObject d))), s')
          \<and> docs s' = docs store2 @ [d]
          \<and> map_of (props d) ''description'' = Some (JStr '''')
          \<and> map_of (props d) ''complete'' = Some (JStr ''yes''))
   \<and> (\<exists>d s'. post_api_tasks store2 (ObjectId id3) 4000 4001
               [(''title'', JStr ''a''), (''description'', JBool False), (''complete'', JNull)] =
              ((201, Json (Obj (toObject d))), s')
          \<and> docs s' = docs store2 @ [d]
          \<and> map_of (props d) ''description'' = Some (JStr '''')
          \<and> map_of (props d) ''complete'' = Some (JBool False))"
proof -
  have t: "truthy (JStr ''yes'')" "\<not> truthy (JNum (Finite 0 0))" "\<not> truthy (JBool False)"
    "\<not> truthy JNull"
    by simp_all
  have b2: "truthy (getField [(''title'', JStr ''a''), (''description'', JBool False),
                       (''complete'', JNull)] ''title'')"
    "getField [(''title'', JStr ''a''), (''description'', JBool False),
               (''complete'', JNull)] ''description'' = JBool False"
    "getField [(''title'', JStr ''a''), (''description'', JBool False),
               (''complete'', JNull)] ''complete'' = JNull"
    by (simp_all add: getField_def)
  note a = C10_create_defaults_on_falsy[OF body_falsy(1) fault_store2 id3_fresh, of 4000 4001,
      THEN conjunct1]
  note b = C10_create_defaults_on_falsy[OF b2(1) fault_store2 id3_fresh, of 4000 4001,
      THEN conjunct1]
  show ?thesis
    using a b t body_falsy(1) b2(1) fault_store2 id3_fresh
    unfolding body_falsy(2,3) b2(2,3) by blast
qed

end
